theory Spec2Isabelle
  imports Complex_Main "HOL-Library.Word" "HOL-Library.Sublist"
begin

section \<open>JavaScript strings and values\<close>

text \<open>
  A JavaScript string is a sequence of UTF-16 code units; \<open>length\<close> is the
  \<^verbatim>\<open>.length\<close> of the source. \<open>js\<close> writes an ASCII literal of the source
  as such a string.
\<close>

type_synonym code_unit = "16 word"
type_synonym jsstring = "code_unit list"

definition js :: "string \<Rightarrow> jsstring" where
  "js s = map (\<lambda>c. of_nat (of_char c)) s"

text \<open>The exceptions the browser built-ins used by the client can throw.\<close>

datatype exn = TypeError | InvalidCharacterError | URIError | SyntaxError

text \<open>
  The values \<^verbatim>\<open>JSON.parse\<close> can return. A number is an IEEE double: a finite
  rational (both zeros are \<open>Finite 0\<close>) or an infinity, which an over-long literal
  parses to. An object is the list of its own properties.
\<close>

datatype number = Finite rat | PlusInfinity | MinusInfinity

datatype json =
    JNull
  | JBool bool
  | JNum number
  | JStr jsstring
  | JArr "json list"
  | JObj "(jsstring \<times> json) list"

text \<open>ToBoolean, as \<^verbatim>\<open>if\<close>, \<^verbatim>\<open>&&\<close> and \<^verbatim>\<open>!\<close> apply it.\<close>

fun truthy :: "json \<Rightarrow> bool" where
  "truthy JNull = False"
| "truthy (JBool b) = b"
| "truthy (JNum n) = (n \<noteq> Finite 0)"
| "truthy (JStr s) = (s \<noteq> [])"
| "truthy (JArr xs) = True"
| "truthy (JObj kvs) = True"

text \<open>
  A property read \<^verbatim>\<open>payload.name\<close> on a value that is not \<^verbatim>\<open>null\<close>, for a name
  that no built-in prototype defines (\<^verbatim>\<open>user_id\<close>, \<^verbatim>\<open>email\<close>): the own
  property of an object, \<^verbatim>\<open>undefined\<close> (\<open>None\<close>) otherwise.
\<close>

fun prop_get :: "json \<Rightarrow> jsstring \<Rightarrow> json option" where
  "prop_get (JObj kvs) name = map_of kvs name"
| "prop_get v name = None"

definition truthy_opt :: "json option \<Rightarrow> bool" where
  "truthy_opt v = (case v of None \<Rightarrow> False | Some x \<Rightarrow> truthy x)"

section \<open>Built-ins of the platform\<close>

text \<open>
  The built-ins the client calls and that are no code of the repository are
  parameters of the model: \<^verbatim>\<open>atob\<close>, \<^verbatim>\<open>decodeURIComponent\<close> and
  \<^verbatim>\<open>JSON.parse\<close> return a value or throw (\<open>Inl\<close>); \<^verbatim>\<open>toLowerCase\<close> and the
  serialisation of a \<^verbatim>\<open>URLSearchParams\<close> always return.
\<close>

record platform =
  atob :: "jsstring \<Rightarrow> exn + jsstring"
  decodeURIComponent :: "jsstring \<Rightarrow> exn + jsstring"
  JSON_parse :: "jsstring \<Rightarrow> exn + json"
  toLowerCase :: "jsstring \<Rightarrow> jsstring"
  URLSearchParams_toString :: "(jsstring \<times> jsstring) list \<Rightarrow> jsstring"

text \<open>\<^verbatim>\<open>s.split(sep)\<close> for a separator of one code unit; never the empty array.\<close>

fun split_js :: "code_unit \<Rightarrow> jsstring \<Rightarrow> jsstring list" where
  "split_js sep [] = [[]]"
| "split_js sep (c # cs) =
     (if c = sep then [] # split_js sep cs
      else (case split_js sep cs of [] \<Rightarrow> [[c]] | p # ps \<Rightarrow> (c # p) # ps))"

text \<open>An array read \<^verbatim>\<open>xs[i]\<close>: \<^verbatim>\<open>undefined\<close> (\<open>None\<close>) out of range.\<close>

definition index_js :: "'a list \<Rightarrow> nat \<Rightarrow> 'a option" where
  "index_js xs i = (if i < length xs then Some (xs ! i) else None)"

text \<open>\<^verbatim>\<open>s.replace(/a/g, b)\<close> for single code units \<open>a\<close> and \<open>b\<close>.\<close>

definition replace_js :: "code_unit \<Rightarrow> code_unit \<Rightarrow> jsstring \<Rightarrow> jsstring" where
  "replace_js a b s = map (\<lambda>c. if c = a then b else c) s"

text \<open>\<^verbatim>\<open>n.toString(16)\<close> of a code unit's number, and \<^verbatim>\<open>s.slice(-2)\<close>.\<close>

definition hex_digit :: "nat \<Rightarrow> code_unit" where
  "hex_digit d = js ''0123456789abcdef'' ! d"

fun toString16 :: "nat \<Rightarrow> jsstring" where
  "toString16 n =
     (if n < 16 then [hex_digit n] else toString16 (n div 16) @ [hex_digit (n mod 16)])"

declare toString16.simps [simp del]

definition slice_last2 :: "jsstring \<Rightarrow> jsstring" where
  "slice_last2 s = drop (length s - 2) s"

text \<open>
  \<^verbatim>\<open>s.trim()\<close>: strips the WhiteSpace and LineTerminator code points of ECMAScript
  from both ends.
\<close>

definition is_white_space :: "code_unit \<Rightarrow> bool" where
  "is_white_space c \<longleftrightarrow>
     c = 0x09 \<or> c = 0x0A \<or> c = 0x0B \<or> c = 0x0C \<or> c = 0x0D \<or> c = 0x20 \<or> c = 0xA0 \<or>
     c = 0x1680 \<or> (0x2000 \<le> c \<and> c \<le> 0x200A) \<or> c = 0x2028 \<or> c = 0x2029 \<or>
     c = 0x202F \<or> c = 0x205F \<or> c = 0x3000 \<or> c = 0xFEFF"

definition trim :: "jsstring \<Rightarrow> jsstring" where
  "trim s = rev (dropWhile is_white_space (rev (dropWhile is_white_space s)))"

text \<open>\<^verbatim>\<open>s.includes(q)\<close>: \<open>q\<close> occurs in \<open>s\<close> as a run of code units.\<close>

fun includes_js :: "jsstring \<Rightarrow> jsstring \<Rightarrow> bool" where
  "includes_js [] q = (q = [])"
| "includes_js (c # s) q = (prefix q (c # s) \<or> includes_js s q)"

section \<open>Data model (frontend/src/lib/types.ts)\<close>

text \<open>
  \<^verbatim>\<open>interface Task\<close>. The field \<^verbatim>\<open>id\<close> is written \<open>task_id\<close>; an optional
  field (\<^verbatim>\<open>description?: string\<close>) is an option, \<open>None\<close> being \<^verbatim>\<open>undefined\<close>.
\<close>

record Task =
  task_id :: jsstring
  user_id :: jsstring
  title :: jsstring
  description :: "jsstring option"
  completed :: bool
  created_at :: jsstring
  updated_at :: jsstring

text \<open>
  \<^verbatim>\<open>interface TaskCreate\<close>, \<^verbatim>\<open>TaskUpdate\<close> and \<^verbatim>\<open>TaskFilter\<close>; their fields carry
  a prefix, since a field name is a constant of the theory.
\<close>

record TaskCreate =
  new_title :: jsstring
  new_description :: "jsstring option"
  new_completed :: "bool option"

record TaskUpdate =
  upd_title :: "jsstring option"
  upd_description :: "jsstring option"
  upd_completed :: "bool option"

record TaskFilter =
  flt_completed :: "bool option"
  flt_search :: "jsstring option"

section \<open>Session state (frontend/src/lib/auth.ts)\<close>

text \<open>
  The module \<^verbatim>\<open>lib/auth\<close> that the pages import is the second part of the file
  \<^verbatim>\<open>frontend/src/lib/types.ts\<close> of the sources.

  \<^verbatim>\<open>localStorage\<close> is a map from keys to strings: \<^verbatim>\<open>getItem\<close> gives \<^verbatim>\<open>null\<close>
  (\<open>None\<close>) for a missing key. It is taken to be accessible, so that its own
  methods do not throw.
\<close>

type_synonym Storage = "jsstring \<rightharpoonup> jsstring"

definition getItem :: "Storage \<Rightarrow> jsstring \<Rightarrow> jsstring option" where
  "getItem storage k = storage k"

definition setItem :: "Storage \<Rightarrow> jsstring \<Rightarrow> jsstring \<Rightarrow> Storage" where
  "setItem storage k v = storage(k \<mapsto> v)"

definition removeItem :: "Storage \<Rightarrow> jsstring \<Rightarrow> Storage" where
  "removeItem storage k = storage(k := None)"

definition auth_token :: jsstring where
  "auth_token = js ''auth_token''"

text \<open>
  \<^verbatim>\<open>interface User { id; email }\<close> and \<^verbatim>\<open>interface Session { user }\<close> of the
  session hook. The fields hold what the payload holds, whatever its type at run
  time; \<^verbatim>\<open>id\<close> is written \<open>ident\<close>.
\<close>

record User =
  ident :: json
  email :: json

record Session =
  user :: User

text \<open>The state of one \<^verbatim>\<open>useSession\<close> hook: \<^verbatim>\<open>data\<close>, \<^verbatim>\<open>isPending\<close>, \<^verbatim>\<open>error\<close>.\<close>

record UseSessionResult =
  data :: "Session option"
  isPending :: bool
  error :: "exn option"

text \<open>
  The middle of \<^verbatim>\<open>decodeJWT\<close>: every code unit \<open>c\<close> of the decoded string becomes
  \<^verbatim>\<open>'%' + ('00' + c.charCodeAt(0).toString(16)).slice(-2)\<close>, and the pieces are
  joined.
\<close>

definition percent_encode :: "jsstring \<Rightarrow> jsstring" where
  "percent_encode s =
     concat (map (\<lambda>c. js ''%'' @ slice_last2 (js ''00'' @ toString16 (unat c))) s)"

text \<open>
  The body of the \<^verbatim>\<open>try\<close> block of \<^verbatim>\<open>decodeJWT\<close>. \<^verbatim>\<open>token.split('.')[1]\<close> is
  \<^verbatim>\<open>undefined\<close> when the token has no dot, and \<^verbatim>\<open>undefined.replace\<close> throws a
  TypeError; each built-in may throw in its turn.
\<close>

definition decodeJWT_try :: "platform \<Rightarrow> jsstring \<Rightarrow> exn + json" where
  "decodeJWT_try P token =
     (case index_js (split_js 0x2E token) 1 of
        None \<Rightarrow> Inl TypeError
      | Some base64Url \<Rightarrow>
          (let base64 = replace_js 0x5F 0x2F (replace_js 0x2D 0x2B base64Url) in
           case atob P base64 of
             Inl e \<Rightarrow> Inl e
           | Inr binary \<Rightarrow>
               (case decodeURIComponent P (percent_encode binary) of
                  Inl e \<Rightarrow> Inl e
                | Inr jsonPayload \<Rightarrow> JSON_parse P jsonPayload)))"

text \<open>
  \<^verbatim>\<open>decodeJWT\<close>: the \<^verbatim>\<open>catch\<close> clause turns every exception of the body into
  the result \<^verbatim>\<open>null\<close>. The result is a completion: \<open>Inr\<close> a returned value,
  \<open>Inl\<close> an exception that leaves the function.
\<close>

definition decodeJWT :: "platform \<Rightarrow> jsstring \<Rightarrow> exn + json" where
  "decodeJWT P token =
     (case decodeJWT_try P token of
        Inl e \<Rightarrow> Inr JNull
      | Inr payload \<Rightarrow> Inr payload)"

text \<open>
  The test \<^verbatim>\<open>payload && payload.user_id && payload.email\<close> and the session object
  built when it holds.
\<close>

definition session_of :: "json \<Rightarrow> Session option" where
  "session_of payload =
     (if truthy payload \<and> truthy_opt (prop_get payload (js ''user_id''))
         \<and> truthy_opt (prop_get payload (js ''email''))
      then (case (prop_get payload (js ''user_id''), prop_get payload (js ''email'')) of
              (Some i, Some e) \<Rightarrow> Some \<lparr>user = \<lparr>ident = i, email = e\<rparr>\<rparr>
            | _ \<Rightarrow> None)
      else None)"

text \<open>
  \<^verbatim>\<open>checkSession\<close>, run when the hook mounts and by the storage listener. It
  returns the storage and the state it leaves; the state does not depend on the
  one before, since every path sets all three fields.
\<close>

definition checkSession :: "platform \<Rightarrow> Storage \<Rightarrow> Storage \<times> UseSessionResult" where
  "checkSession P storage =
     (case getItem storage auth_token of
        None \<Rightarrow> (storage, \<lparr>data = None, isPending = False, error = None\<rparr>)
      | Some token \<Rightarrow>
          if token = [] then (storage, \<lparr>data = None, isPending = False, error = None\<rparr>)
          else
            (case decodeJWT P token of
               Inl err \<Rightarrow> (storage, \<lparr>data = None, isPending = False, error = Some err\<rparr>)
             | Inr payload \<Rightarrow>
                 (case session_of payload of
                    Some session \<Rightarrow>
                      (storage, \<lparr>data = Some session, isPending = False, error = None\<rparr>)
                  | None \<Rightarrow>
                      (removeItem storage auth_token,
                       \<lparr>data = None, isPending = False, error = None\<rparr>))))"

text \<open>
  A DOM event as the listener reads it: its type and its \<^verbatim>\<open>key\<close>, which only a
  \<^verbatim>\<open>StorageEvent\<close> has (\<open>None\<close>: \<^verbatim>\<open>undefined\<close> or \<^verbatim>\<open>null\<close>).
\<close>

record DomEvent =
  event_type :: jsstring
  event_key :: "jsstring option"

text \<open>\<^verbatim>\<open>new Event('storage')\<close>, and the event a browser sends to the other contexts
  of the origin when the item \<open>k\<close> of the storage changes.\<close>

definition new_Event :: "jsstring \<Rightarrow> DomEvent" where
  "new_Event t = \<lparr>event_type = t, event_key = None\<rparr>"

definition StorageEvent :: "jsstring \<Rightarrow> DomEvent" where
  "StorageEvent k = \<lparr>event_type = js ''storage'', event_key = Some k\<rparr>"

text \<open>\<^verbatim>\<open>handleStorageChange\<close>, the listener each mounted hook registers.\<close>

definition handleStorageChange ::
  "platform \<Rightarrow> DomEvent \<Rightarrow> Storage \<times> UseSessionResult \<Rightarrow> Storage \<times> UseSessionResult" where
  "handleStorageChange P e ctx =
     (if event_key e = Some auth_token then checkSession P (fst ctx) else ctx)"

text \<open>
  \<^verbatim>\<open>window.dispatchEvent(e)\<close> in a context whose mounted hooks are in the states
  \<open>hooks\<close>: the listeners for the type \<^verbatim>\<open>storage\<close> run one after the other on the
  shared storage.
\<close>

fun run_listeners ::
  "platform \<Rightarrow> DomEvent \<Rightarrow> Storage \<Rightarrow> UseSessionResult list \<Rightarrow> Storage \<times> UseSessionResult list" where
  "run_listeners P e storage [] = (storage, [])"
| "run_listeners P e storage (h # hs) =
     (case handleStorageChange P e (storage, h) of
        (storage', h') \<Rightarrow>
          (case run_listeners P e storage' hs of
             (storage'', hs') \<Rightarrow> (storage'', h' # hs')))"

definition dispatchEvent ::
  "platform \<Rightarrow> DomEvent \<Rightarrow> Storage \<times> UseSessionResult list \<Rightarrow> Storage \<times> UseSessionResult list" where
  "dispatchEvent P e ctx =
     (if event_type e = js ''storage'' then run_listeners P e (fst ctx) (snd ctx) else ctx)"

text \<open>\<^verbatim>\<open>handleLogout\<close> of the dashboard (frontend/src/app/page.tsx), in a browser.\<close>

definition handleLogout ::
  "platform \<Rightarrow> Storage \<times> UseSessionResult list \<Rightarrow> Storage \<times> UseSessionResult list" where
  "handleLogout P ctx =
     dispatchEvent P (new_Event (js ''storage'')) (removeItem (fst ctx) auth_token, snd ctx)"

section \<open>API client (frontend/src/lib/auth.ts, frontend/src/lib/api.ts)\<close>

text \<open>
  The parts of an axios request configuration that the client sets: method, URL,
  headers and body.
\<close>

datatype request_body = NoBody | TaskCreateBody TaskCreate | TaskUpdateBody TaskUpdate

record AxiosRequestConfig =
  http_method :: jsstring
  url :: jsstring
  headers :: "jsstring \<rightharpoonup> jsstring"
  body :: request_body

text \<open>The headers \<^verbatim>\<open>axios.create\<close> gives every request of \<^verbatim>\<open>apiAxiosClient\<close>.\<close>

definition instance_headers :: "jsstring \<rightharpoonup> jsstring" where
  "instance_headers = [js ''Content-Type'' \<mapsto> js ''application/json'']"

text \<open>
  The request interceptor: \<^verbatim>\<open>if (token)\<close> holds for a stored string that is not
  empty.
\<close>

definition request_interceptor :: "Storage \<Rightarrow> AxiosRequestConfig \<Rightarrow> AxiosRequestConfig" where
  "request_interceptor storage config =
     (case getItem storage auth_token of
        None \<Rightarrow> config
      | Some token \<Rightarrow>
          if token \<noteq> []
          then config\<lparr>headers := (headers config)(js ''Authorization'' \<mapsto> js ''Bearer '' @ token)\<rparr>
          else config)"

text \<open>
  \<^verbatim>\<open>apiAxiosClient.get\<close>, \<^verbatim>\<open>post\<close>, \<^verbatim>\<open>put\<close> and \<^verbatim>\<open>delete\<close>: the configuration
  that leaves the client, after the request interceptor.
\<close>

definition apiAxiosClient_request ::
  "Storage \<Rightarrow> jsstring \<Rightarrow> jsstring \<Rightarrow> request_body \<Rightarrow> AxiosRequestConfig" where
  "apiAxiosClient_request storage m u b =
     request_interceptor storage
       \<lparr>http_method = m, url = u, headers = instance_headers, body = b\<rparr>"

text \<open>The five task methods of \<^verbatim>\<open>ApiClient\<close>; each gives the request it sends.\<close>

definition getTasks ::
  "platform \<Rightarrow> Storage \<Rightarrow> jsstring \<Rightarrow> TaskFilter option \<Rightarrow> AxiosRequestConfig" where
  "getTasks P storage userId flt =
     (let url0 = js ''/users/'' @ userId @ js ''/tasks'';
          url1 =
            (case flt of
               None \<Rightarrow> url0
             | Some f \<Rightarrow>
                 url0 @ js ''?'' @
                 URLSearchParams_toString P
                   ((case flt_completed f of
                       None \<Rightarrow> []
                     | Some c \<Rightarrow> [(js ''completed'', if c then js ''true'' else js ''false'')]) @
                    (case flt_search f of
                       None \<Rightarrow> []
                     | Some q \<Rightarrow> if q \<noteq> [] then [(js ''search'', q)] else [])))
      in apiAxiosClient_request storage (js ''get'') url1 NoBody)"

definition createTask :: "Storage \<Rightarrow> jsstring \<Rightarrow> TaskCreate \<Rightarrow> AxiosRequestConfig" where
  "createTask storage userId taskData =
     apiAxiosClient_request storage (js ''post'')
       (js ''/users/'' @ userId @ js ''/tasks'') (TaskCreateBody taskData)"

definition getTask :: "Storage \<Rightarrow> jsstring \<Rightarrow> jsstring \<Rightarrow> AxiosRequestConfig" where
  "getTask storage userId taskId =
     apiAxiosClient_request storage (js ''get'')
       (js ''/users/'' @ userId @ js ''/tasks/'' @ taskId) NoBody"

definition updateTask ::
  "Storage \<Rightarrow> jsstring \<Rightarrow> jsstring \<Rightarrow> TaskUpdate \<Rightarrow> AxiosRequestConfig" where
  "updateTask storage userId taskId taskData =
     apiAxiosClient_request storage (js ''put'')
       (js ''/users/'' @ userId @ js ''/tasks/'' @ taskId) (TaskUpdateBody taskData)"

definition deleteTask :: "Storage \<Rightarrow> jsstring \<Rightarrow> jsstring \<Rightarrow> AxiosRequestConfig" where
  "deleteTask storage userId taskId =
     apiAxiosClient_request storage (js ''delete'')
       (js ''/users/'' @ userId @ js ''/tasks/'' @ taskId) NoBody"

text \<open>
  A response as the response interceptor reads it, and the error axios rejects
  with: \<^verbatim>\<open>error.response\<close> is \<^verbatim>\<open>undefined\<close> (\<open>None\<close>) when no response came.
\<close>

record AxiosResponse =
  status :: int
  response_data :: json

record AxiosError =
  response :: "AxiosResponse option"

text \<open>
  The two handlers of the response interceptor. The second one returns
  \<^verbatim>\<open>Promise.reject(error)\<close> in every case; what it does before is its effect on the
  storage and on the hooks of the context.
\<close>

definition response_onFulfilled :: "AxiosResponse \<Rightarrow> AxiosResponse" where
  "response_onFulfilled r = r"

definition response_onRejected ::
  "platform \<Rightarrow> AxiosError \<Rightarrow> Storage \<times> UseSessionResult list \<Rightarrow> Storage \<times> UseSessionResult list" where
  "response_onRejected P err ctx =
     (if (case response err of None \<Rightarrow> False | Some r \<Rightarrow> status r = 401)
      then dispatchEvent P (new_Event (js ''storage'')) (removeItem (fst ctx) auth_token, snd ctx)
      else ctx)"

text \<open>
  How axios settles a response (its default \<^verbatim>\<open>validateStatus\<close>): a status from 200
  to 299 fulfils the promise, any other rejects it with an error that carries the
  response. The result is the settled promise and the context left behind.
\<close>

definition receive ::
  "platform \<Rightarrow> AxiosResponse \<Rightarrow> Storage \<times> UseSessionResult list \<Rightarrow>
     (AxiosError + AxiosResponse) \<times> Storage \<times> UseSessionResult list" where
  "receive P r ctx =
     (if 200 \<le> status r \<and> status r < 300 then (Inr (response_onFulfilled r), ctx)
      else (Inl \<lparr>response = Some r\<rparr>, response_onRejected P \<lparr>response = Some r\<rparr> ctx))"

section \<open>Task form (frontend/src/components/TaskForm.tsx)\<close>

text \<open>
  \<^verbatim>\<open>validateForm\<close>: the errors it stores (\<^verbatim>\<open>newErrors\<close>, key and message) and the
  boolean it returns.
\<close>

definition validateForm :: "TaskCreate \<Rightarrow> (jsstring \<times> jsstring) list \<times> bool" where
  "validateForm formData =
     (let newErrors =
        (if trim (new_title formData) = [] then [(js ''title'', js ''Title is required'')]
         else if length (new_title formData) < 1 \<or> length (new_title formData) > 200
         then [(js ''title'', js ''Title must be between 1 and 200 characters'')]
         else []) @
        (if (case new_description formData of
               None \<Rightarrow> False
             | Some d \<Rightarrow> d \<noteq> [] \<and> length d > 1000)
         then [(js ''description'', js ''Description must be less than 1000 characters'')]
         else [])
      in (newErrors, length newErrors = 0))"

text \<open>
  \<^verbatim>\<open>handleSubmit\<close>: the errors shown, and the data handed to \<^verbatim>\<open>onSubmit\<close>
  (\<open>None\<close> when the form is not submitted).
\<close>

definition handleSubmit :: "TaskCreate \<Rightarrow> (jsstring \<times> jsstring) list \<times> TaskCreate option" where
  "handleSubmit formData =
     (case validateForm formData of
        (newErrors, ok) \<Rightarrow> if \<not> ok then (newErrors, None) else (newErrors, Some formData))"

section \<open>Task list (frontend/src/components/TaskList.tsx)\<close>

text \<open>\<^verbatim>\<open>filteredTasks\<close>, from the filter and the search query of the component.\<close>

definition filteredTasks :: "platform \<Rightarrow> TaskFilter \<Rightarrow> jsstring \<Rightarrow> Task list \<Rightarrow> Task list" where
  "filteredTasks P flt searchQuery tasks =
     filter (\<lambda>task.
       if flt_completed flt \<noteq> None \<and> Some (completed task) \<noteq> flt_completed flt then False
       else if searchQuery \<noteq> [] then
         (let query = toLowerCase P searchQuery in
            includes_js (toLowerCase P (title task)) query \<or>
            (case description task of
               None \<Rightarrow> False
             | Some d \<Rightarrow> d \<noteq> [] \<and> includes_js (toLowerCase P d) query))
       else True) tasks"

section \<open>Dashboard (frontend/src/app/page.tsx)\<close>

text \<open>
  \<^verbatim>\<open>const completedTasks = tasks.filter(task => task.completed).length;\<close>
  \<^verbatim>\<open>const pendingTasks = tasks.filter(task => !task.completed).length;\<close>
\<close>

definition completedTasks :: "Task list \<Rightarrow> nat" where
  "completedTasks tasks = length (filter (\<lambda>task. completed task) tasks)"

definition pendingTasks :: "Task list \<Rightarrow> nat" where
  "pendingTasks tasks = length (filter (\<lambda>task. \<not> completed task) tasks)"

section \<open>Token Codec and Task Repository of the server\<close>

text \<open>
  Modelled from the spec: the credential of the Token Codec (section 3 and 4.1); the
  server that issues and verifies tokens is not among the sources. Times are
  seconds as integers.
\<close>

record Credential =
  userId :: jsstring
  loginHandle :: jsstring
  issuedAt :: int
  expiresAt :: int

text \<open>
  Modelled from the spec: the three ways \<^verbatim>\<open>verify\<close> fails (section 4.1).
\<close>

datatype VerificationError = Malformed | BadSignature | Expired

text \<open>
  Modelled from the spec: what the Token Codec rests on and the spec leaves to the
  deployment (section 6): the transport form of a signed credential (\<open>render\<close>),
  its parser (\<open>None\<close> for a string that has not the expected structure) and the
  keyed signature over the whole payload.
\<close>

record ('tok, 'sig, 'key) wire =
  render :: "Credential \<Rightarrow> 'sig \<Rightarrow> 'tok"
  parse :: "'tok \<Rightarrow> (Credential \<times> 'sig) option"
  sign :: "'key \<Rightarrow> Credential \<Rightarrow> 'sig"

text \<open>
  Modelled from the spec: \<^verbatim>\<open>issue(userId, loginHandle, ttl)\<close> of the Token Codec
  (section 4.1), at the time \<open>now\<close> and under the secret \<open>secret\<close>; the server code
  is not among the sources.
\<close>

definition issue ::
  "('tok, 'sig, 'key) wire \<Rightarrow> 'key \<Rightarrow> int \<Rightarrow> jsstring \<Rightarrow> jsstring \<Rightarrow> int \<Rightarrow> 'tok" where
  "issue W secret now uid handle ttl =
     (let c = \<lparr>userId = uid, loginHandle = handle, issuedAt = now, expiresAt = now + ttl\<rparr>
      in render W c (sign W secret c))"

text \<open>
  Modelled from the spec: \<^verbatim>\<open>verify(token)\<close> of the Token Codec (section 4.1), at
  the time \<open>now\<close>: Malformed, then BadSignature, then Expired when
  \<open>now \<ge> expiresAt\<close>; the server code is not among the sources.
\<close>

definition verify ::
  "('tok, 'sig, 'key) wire \<Rightarrow> 'key \<Rightarrow> int \<Rightarrow> 'tok \<Rightarrow> VerificationError + Credential" where
  "verify W secret now token =
     (case parse W token of
        None \<Rightarrow> Inl Malformed
      | Some (c, s) \<Rightarrow>
          if s \<noteq> sign W secret c then Inl BadSignature
          else if now \<ge> expiresAt c then Inl Expired
          else Inr c)"

text \<open>
  Modelled from the spec: the error kinds of section 7 and the status the boundary
  layer maps each to.
\<close>

datatype api_error =
  Unauthenticated | Forbidden | ValidationError | NotFound | AlreadyExists | Fatal

fun http_status :: "api_error \<Rightarrow> nat" where
  "http_status Unauthenticated = 401"
| "http_status Forbidden = 403"
| "http_status ValidationError = 400"
| "http_status NotFound = 404"
| "http_status AlreadyExists = 409"
| "http_status Fatal = 500"

text \<open>
  Modelled from the spec: the lookup every operation of the Task Repository starts
  with (section 3: the query is always filtered by owner identity); the store is
  the list of the persisted tasks, and the server code is not among the sources.
\<close>

definition find_owned :: "jsstring \<Rightarrow> jsstring \<Rightarrow> Task list \<Rightarrow> Task option" where
  "find_owned ownerId taskId store =
     find (\<lambda>t. task_id t = taskId \<and> user_id t = ownerId) store"

text \<open>
  Modelled from the spec: \<^verbatim>\<open>get(ownerId, taskId)\<close> of the Task Repository
  (section 4.4); the server code is not among the sources.
\<close>

definition get_task :: "jsstring \<Rightarrow> jsstring \<Rightarrow> Task list \<Rightarrow> api_error + Task" where
  "get_task ownerId taskId store =
     (case find_owned ownerId taskId store of
        None \<Rightarrow> Inl NotFound
      | Some t \<Rightarrow> Inr t)"

text \<open>
  Modelled from the spec: the validation of the fields supplied to \<^verbatim>\<open>update\<close>
  (section 4.4: a title that is empty or exceeds 200 characters, a description
  that exceeds 1000), and the task with the supplied fields written and the
  updated timestamp bumped.
\<close>

definition invalid_fields :: "TaskUpdate \<Rightarrow> bool" where
  "invalid_fields f \<longleftrightarrow>
     (case upd_title f of None \<Rightarrow> False | Some s \<Rightarrow> s = [] \<or> length s > 200) \<or>
     (case upd_description f of None \<Rightarrow> False | Some d \<Rightarrow> length d > 1000)"

definition apply_fields :: "TaskUpdate \<Rightarrow> jsstring \<Rightarrow> Task \<Rightarrow> Task" where
  "apply_fields f now t =
     t\<lparr>title := (case upd_title f of None \<Rightarrow> title t | Some s \<Rightarrow> s),
       description := (case upd_description f of None \<Rightarrow> description t | Some d \<Rightarrow> Some d),
       completed := (case upd_completed f of None \<Rightarrow> completed t | Some c \<Rightarrow> c),
       updated_at := now\<rparr>"

text \<open>
  Modelled from the spec: \<^verbatim>\<open>update(ownerId, taskId, fields)\<close> of the Task
  Repository (section 4.4): the ownership-or-NotFound rule of \<^verbatim>\<open>get\<close>, then the
  validation; it returns the updated task and the new store. The server code is
  not among the sources.
\<close>

definition update_task ::
  "jsstring \<Rightarrow> jsstring \<Rightarrow> TaskUpdate \<Rightarrow> jsstring \<Rightarrow> Task list \<Rightarrow> api_error + Task \<times> Task list" where
  "update_task ownerId taskId f now store =
     (case find_owned ownerId taskId store of
        None \<Rightarrow> Inl NotFound
      | Some t \<Rightarrow>
          if invalid_fields f then Inl ValidationError
          else Inr (apply_fields f now t,
                    map (\<lambda>x. if task_id x = taskId \<and> user_id x = ownerId
                              then apply_fields f now x else x) store))"

text \<open>
  Modelled from the spec: \<^verbatim>\<open>delete(ownerId, taskId)\<close> of the Task Repository
  (section 4.4); it returns the new store. The server code is not among the
  sources.
\<close>

definition delete_task :: "jsstring \<Rightarrow> jsstring \<Rightarrow> Task list \<Rightarrow> api_error + Task list" where
  "delete_task ownerId taskId store =
     (case find_owned ownerId taskId store of
        None \<Rightarrow> Inl NotFound
      | Some t \<Rightarrow> Inr (filter (\<lambda>x. \<not> (task_id x = taskId \<and> user_id x = ownerId)) store))"

text \<open>
  Modelled from the spec: the case-insensitive substring match of \<^verbatim>\<open>list\<close>
  (section 4.4), both sides lower-cased.
\<close>

definition ci_contains :: "platform \<Rightarrow> jsstring \<Rightarrow> jsstring \<Rightarrow> bool" where
  "ci_contains P s q = includes_js (toLowerCase P s) (toLowerCase P q)"

text \<open>
  Modelled from the spec: \<^verbatim>\<open>list(ownerId, filter?)\<close> of the Task Repository
  (section 4.4): the tasks of the owner, in the order of the store, narrowed by
  the completion flag and by the search string when the filter has them. The
  server code is not among the sources.
\<close>

definition list_tasks :: "platform \<Rightarrow> jsstring \<Rightarrow> TaskFilter \<Rightarrow> Task list \<Rightarrow> Task list" where
  "list_tasks P ownerId flt store =
     filter (\<lambda>t. user_id t = ownerId \<and>
                 (case flt_completed flt of None \<Rightarrow> True | Some c \<Rightarrow> completed t = c) \<and>
                 (case flt_search flt of
                    None \<Rightarrow> True
                  | Some q \<Rightarrow>
                      ci_contains P (title t) q \<or>
                      (case description t of None \<Rightarrow> False | Some d \<Rightarrow> ci_contains P d q)))
       store"

section \<open>A platform and values for the examples\<close>

text \<open>
  A platform for the closed examples below. Each decoding built-in is a finite
  table of values that the browser's built-in returns (outside the table it
  throws here); lower-casing is the ASCII mapping and the query serialisation
  joins the pairs, as the browser does for strings that need no escaping.
\<close>

fun join_js :: "jsstring \<Rightarrow> jsstring list \<Rightarrow> jsstring" where
  "join_js sep [] = []"
| "join_js sep [x] = x"
| "join_js sep (x # y # ys) = x @ sep @ join_js sep (y # ys)"

definition sample_payload :: jsstring where
  \<open>sample_payload = js ''{"user_id":"u1","email":"a@x.com"}''\<close>

definition anonymous_payload :: jsstring where
  \<open>anonymous_payload = js ''{"user_id":"","email":"a@x.com"}''\<close>

definition sample_platform :: platform where
  "sample_platform =
     \<lparr>atob = (\<lambda>s.
        if s = js ''eyJ1c2VyX2lkIjoidTEiLCJlbWFpbCI6ImFAeC5jb20ifQ'' then Inr sample_payload
        else if s = js ''eyJ1c2VyX2lkIjoiIiwiZW1haWwiOiJhQHguY29tIn0'' then Inr anonymous_payload
        else Inl InvalidCharacterError),
      decodeURIComponent = (\<lambda>s.
        if s = js (''%7b%22%75%73%65%72%5f%69%64%22%3a%22%75%31%22%2c'' @
                   ''%22%65%6d%61%69%6c%22%3a%22%61%40%78%2e%63%6f%6d%22%7d'')
        then Inr sample_payload
        else if s = js (''%7b%22%75%73%65%72%5f%69%64%22%3a%22%22%2c'' @
                        ''%22%65%6d%61%69%6c%22%3a%22%61%40%78%2e%63%6f%6d%22%7d'')
        then Inr anonymous_payload
        else Inl URIError),
      JSON_parse = (\<lambda>s.
        if s = sample_payload
        then Inr (JObj [(js ''user_id'', JStr (js ''u1'')), (js ''email'', JStr (js ''a@x.com''))])
        else if s = anonymous_payload
        then Inr (JObj [(js ''user_id'', JStr []), (js ''email'', JStr (js ''a@x.com''))])
        else Inl SyntaxError),
      toLowerCase = map (\<lambda>c. if 0x41 \<le> c \<and> c \<le> 0x5A then c + 0x20 else c),
      URLSearchParams_toString =
        (\<lambda>ps. join_js (js ''&'') (map (\<lambda>(k, v). k @ js ''='' @ v) ps))\<rparr>"

text \<open>
  Two tokens of three segments. The payload of the first is
  \<^verbatim>\<open>{"user_id":"u1","email":"a@x.com"}\<close>; in the second the user id is the empty
  string.
\<close>

definition sample_token :: jsstring where
  "sample_token =
     js ''eyJhbGciOiJIUzI1NiIsInR5cCI6IkpXVCJ9.eyJ1c2VyX2lkIjoidTEiLCJlbWFpbCI6ImFAeC5jb20ifQ.c2ln''"

definition anonymous_token :: jsstring where
  "anonymous_token =
     js ''eyJhbGciOiJIUzI1NiIsInR5cCI6IkpXVCJ9.eyJ1c2VyX2lkIjoiIiwiZW1haWwiOiJhQHguY29tIn0.c2ln''"

definition sample_session :: Session where
  "sample_session = \<lparr>user = \<lparr>ident = JStr (js ''u1''), email = JStr (js ''a@x.com'')\<rparr>\<rparr>"

text \<open>
  A transport form for the examples of the Token Codec: the token is the pair of
  the credential and its signature, and the signature joins the secret and the
  two identity fields.
\<close>

definition sample_wire :: "(Credential \<times> jsstring, jsstring, jsstring) wire" where
  "sample_wire =
     \<lparr>render = (\<lambda>c s. (c, s)), parse = (\<lambda>token. Some token),
      sign = (\<lambda>k c. k @ userId c @ loginHandle c)\<rparr>"

text \<open>
  A store of four tasks, three of the user \<^verbatim>\<open>u1\<close> and one of the user \<^verbatim>\<open>u2\<close>.
\<close>

definition task_a :: Task where
  "task_a = \<lparr>task_id = js ''t1'', user_id = js ''u1'', title = js ''Buy Milk'',
      description = None, completed = False,
      created_at = js ''2026-01-01T10:00:00Z'', updated_at = js ''2026-01-01T10:00:00Z''\<rparr>"

definition task_b :: Task where
  "task_b = \<lparr>task_id = js ''t2'', user_id = js ''u2'', title = js ''Milk the cow'',
      description = Some (js ''at dawn''), completed = False,
      created_at = js ''2026-01-02T10:00:00Z'', updated_at = js ''2026-01-02T10:00:00Z''\<rparr>"

definition task_c :: Task where
  "task_c = \<lparr>task_id = js ''t3'', user_id = js ''u1'', title = js ''Call Bob'',
      description = Some (js ''about the MILK run''), completed = True,
      created_at = js ''2026-01-03T10:00:00Z'', updated_at = js ''2026-01-04T10:00:00Z''\<rparr>"

definition task_d :: Task where
  "task_d = \<lparr>task_id = js ''t4'', user_id = js ''u1'', title = js ''Pay rent'',
      description = Some [], completed = False,
      created_at = js ''2026-01-05T10:00:00Z'', updated_at = js ''2026-01-05T10:00:00Z''\<rparr>"

definition sample_store :: "Task list" where
  "sample_store = [task_a, task_b, task_c, task_d]"

section \<open>Properties\<close>

subsection \<open>Strings, segments and listeners\<close>

lemma split_js_not_Nil: "split_js sep s \<noteq> []"
  by (induction s) (auto split: list.splits)

lemma split_js_no_separator: "sep \<notin> set s \<Longrightarrow> split_js sep s = [s]"
  by (induction s) auto

lemma split_js_first_segment:
  "sep \<notin> set h \<Longrightarrow> split_js sep (h @ sep # r) = h # split_js sep r"
  by (induction h) (auto split: list.splits)

lemma index_js_no_separator: "sep \<notin> set s \<Longrightarrow> index_js (split_js sep s) 1 = None"
  by (simp add: split_js_no_separator index_js_def)

lemma second_segment:
  assumes "sep \<notin> set h" "sep \<notin> set p"
  shows "index_js (split_js sep (h @ sep # p @ sep # s)) 1 = Some p"
  using assms by (simp add: split_js_first_segment index_js_def)

lemma run_listeners_other_key:
  "event_key e \<noteq> Some auth_token \<Longrightarrow> run_listeners P e storage hooks = (storage, hooks)"
  by (induction hooks arbitrary: storage) (simp_all add: handleStorageChange_def)

lemma dispatch_plain_event: "dispatchEvent P (new_Event t) ctx = ctx"
  by (cases ctx) (simp add: dispatchEvent_def run_listeners_other_key new_Event_def)

lemma trim_empty_iff: "trim s = [] \<longleftrightarrow> list_all is_white_space s"
proof -
  have "dropWhile is_white_space (rev (dropWhile is_white_space s)) = []
        \<longleftrightarrow> dropWhile is_white_space s = []"
  proof (cases "dropWhile is_white_space s")
    case Nil
    show ?thesis unfolding Nil by simp
  next
    case (Cons c cs)
    then have "\<not> is_white_space c"
      by (metis hd_dropWhile list.sel(1) list.distinct(1))
    with Cons show ?thesis
      by (auto simp: dropWhile_eq_Nil_conv)
  qed
  then show ?thesis
    by (simp add: trim_def dropWhile_eq_Nil_conv list_all_iff)
qed

lemma includes_js_iff: "includes_js s q \<longleftrightarrow> sublist q s"
  by (induction s) (auto simp: sublist_Cons_right)

subsection \<open>Decoding a token\<close>


text \<open>
  Claim C9. \<open>decodeJWT\<close> is total: for every input string it returns (\<open>Inr\<close>) the
  decoded payload or \<^verbatim>\<open>null\<close> and no exception leaves it, whatever the built-ins
  do. A string with no dot, a second segment that \<^verbatim>\<open>atob\<close> rejects, a payload
  that \<^verbatim>\<open>JSON.parse\<close> rejects, and any other string on which the body throws,
  give \<^verbatim>\<open>null\<close>.
\<close>

theorem decodeJWT_total:
  "(\<exists>v. decodeJWT P token = Inr v \<and> (v = JNull \<or> decodeJWT_try P token = Inr v)) \<and>
   (0x2E \<notin> set token \<longrightarrow> decodeJWT P token = Inr JNull) \<and>
   ((\<exists>e. decodeJWT_try P token = Inl e) \<longrightarrow> decodeJWT P token = Inr JNull) \<and>
   (\<forall>seg e. index_js (split_js 0x2E token) 1 = Some seg \<and>
      atob P (replace_js 0x5F 0x2F (replace_js 0x2D 0x2B seg)) = Inl e \<longrightarrow>
      decodeJWT P token = Inr JNull) \<and>
   (\<forall>seg binary jsonPayload e. index_js (split_js 0x2E token) 1 = Some seg \<and>
      atob P (replace_js 0x5F 0x2F (replace_js 0x2D 0x2B seg)) = Inr binary \<and>
      decodeURIComponent P (percent_encode binary) = Inr jsonPayload \<and>
      JSON_parse P jsonPayload = Inl e \<longrightarrow>
      decodeJWT P token = Inr JNull)"
proof -
  have returns: "\<exists>v. decodeJWT P token = Inr v \<and> (v = JNull \<or> decodeJWT_try P token = Inr v)"
    by (cases "decodeJWT_try P token") (simp_all add: decodeJWT_def)
  have caught: "decodeJWT P token = Inr JNull" if "decodeJWT_try P token = Inl e" for e
    using that by (simp add: decodeJWT_def)
  have no_dot: "decodeJWT_try P token = Inl TypeError" if "0x2E \<notin> set token"
    using index_js_no_separator [of "0x2E" token] that by (simp add: decodeJWT_try_def)
  have bad_base64: "decodeJWT_try P token = Inl e"
    if "index_js (split_js 0x2E token) 1 = Some seg"
      and "atob P (replace_js 0x5F 0x2F (replace_js 0x2D 0x2B seg)) = Inl e" for seg e
    using that by (simp add: decodeJWT_try_def)
  have bad_json: "decodeJWT_try P token = Inl e"
    if "index_js (split_js 0x2E token) 1 = Some seg"
      and "atob P (replace_js 0x5F 0x2F (replace_js 0x2D 0x2B seg)) = Inr binary"
      and "decodeURIComponent P (percent_encode binary) = Inr jsonPayload"
      and "JSON_parse P jsonPayload = Inl e" for seg binary jsonPayload e
    using that by (simp add: decodeJWT_try_def)
  show ?thesis
    using returns caught no_dot bad_base64 bad_json by blast
qed

theorem decodeJWT_total_witness:
  "0x2E \<notin> set (js ''not-a-token'') \<and>
   decodeJWT_try sample_platform (js ''not-a-token'') = Inl TypeError \<and>
   decodeJWT sample_platform (js ''not-a-token'') = Inr JNull \<and>
   index_js (split_js 0x2E (js ''a.b.c'')) 1 = Some (js ''b'') \<and>
   atob sample_platform (replace_js 0x5F 0x2F (replace_js 0x2D 0x2B (js ''b''))) =
     Inl InvalidCharacterError \<and>
   decodeJWT sample_platform (js ''a.b.c'') = Inr JNull"
proof -
  have a: "index_js (split_js 0x2E (js ''a.b.c'')) 1 = Some (js ''b'')"
    by (simp add: js_def index_js_def)
  have b: "atob sample_platform (replace_js 0x5F 0x2F (replace_js 0x2D 0x2B (js ''b''))) =
     Inl InvalidCharacterError"
    by (simp add: js_def replace_js_def sample_platform_def)
  have c: "decodeJWT_try sample_platform (js ''not-a-token'') = Inl TypeError"
    by (simp add: js_def decodeJWT_try_def index_js_def)
  have d: "0x2E \<notin> set (js ''not-a-token'')"
    by (simp add: js_def)
  have e: "decodeJWT sample_platform (js ''not-a-token'') = Inr JNull"
    using decodeJWT_total [of sample_platform "js ''not-a-token''"] d by blast
  have f: "decodeJWT sample_platform (js ''a.b.c'') = Inr JNull"
    using decodeJWT_total [of sample_platform "js ''a.b.c''"] a b by blast
  show ?thesis
    using a b c d e f by blast
qed



lemma session_of_Some:
  "prop_get payload (js ''user_id'') = Some i \<Longrightarrow> truthy i \<Longrightarrow>
   prop_get payload (js ''email'') = Some e \<Longrightarrow> truthy e \<Longrightarrow>
   session_of payload = Some \<lparr>user = \<lparr>ident = i, email = e\<rparr>\<rparr>"
  by (cases payload) (simp_all add: session_of_def truthy_opt_def)

lemma session_of_None:
  "\<not> truthy_opt (prop_get payload (js ''user_id'')) \<or>
   \<not> truthy_opt (prop_get payload (js ''email'')) \<Longrightarrow> session_of payload = None"
  by (auto simp: session_of_def)

lemma decodeJWT_second_segment:
  assumes "0x2E \<notin> set h" "0x2E \<notin> set h'" "0x2E \<notin> set p"
  shows "decodeJWT P (h @ 0x2E # p @ 0x2E # s) = decodeJWT P (h' @ 0x2E # p @ 0x2E # s')"
  using second_segment [of "0x2E" h p s] second_segment [of "0x2E" h' p s'] assms
  by (simp add: decodeJWT_def decodeJWT_try_def)

subsection \<open>Loading the session\<close>

text \<open>
  Claim C4, as amended. On session load, for every stored token that is not the
  empty string: if its payload decodes and holds a truthy (non-empty) user id and
  login handle, the session exposes exactly these two values and the storage is
  left as it is; if decoding fails, or the payload lacks one of the two or holds
  a falsy one, there is no session and the token is removed from the storage.
  With no stored value, or the empty string, there is no session and the storage
  is left as it is. Only the second segment of the token is read, so the
  signature is never verified: two tokens that differ in the first and the last
  segment give the same session.
\<close>

theorem checkSession_on_load:
  "(getItem storage auth_token = Some token \<and> token \<noteq> [] \<longrightarrow>
      (\<forall>payload i e.
         decodeJWT_try P token = Inr payload \<and>
         prop_get payload (js ''user_id'') = Some i \<and> truthy i \<and>
         prop_get payload (js ''email'') = Some e \<and> truthy e \<longrightarrow>
         checkSession P storage =
           (storage, \<lparr>data = Some \<lparr>user = \<lparr>ident = i, email = e\<rparr>\<rparr>,
                      isPending = False, error = None\<rparr>)) \<and>
      ((\<exists>err. decodeJWT_try P token = Inl err) \<or>
       (\<exists>payload. decodeJWT_try P token = Inr payload \<and>
          (\<not> truthy_opt (prop_get payload (js ''user_id'')) \<or>
           \<not> truthy_opt (prop_get payload (js ''email'')))) \<longrightarrow>
         checkSession P storage =
           (removeItem storage auth_token, \<lparr>data = None, isPending = False, error = None\<rparr>))) \<and>
   (getItem storage auth_token = None \<or> getItem storage auth_token = Some [] \<longrightarrow>
      checkSession P storage = (storage, \<lparr>data = None, isPending = False, error = None\<rparr>)) \<and>
   (0x2E \<notin> set h \<and> 0x2E \<notin> set h' \<and> 0x2E \<notin> set p \<longrightarrow>
      snd (checkSession P [auth_token \<mapsto> h @ 0x2E # p @ 0x2E # s]) =
      snd (checkSession P [auth_token \<mapsto> h' @ 0x2E # p @ 0x2E # s']))"
proof (intro conjI impI allI)
  fix payload i e
  assume "getItem storage auth_token = Some token \<and> token \<noteq> []"
    and "decodeJWT_try P token = Inr payload \<and>
         prop_get payload (js ''user_id'') = Some i \<and> truthy i \<and>
         prop_get payload (js ''email'') = Some e \<and> truthy e"
  then show "checkSession P storage =
           (storage, \<lparr>data = Some \<lparr>user = \<lparr>ident = i, email = e\<rparr>\<rparr>,
                      isPending = False, error = None\<rparr>)"
    by (simp add: checkSession_def decodeJWT_def session_of_Some)
next
  assume tok: "getItem storage auth_token = Some token \<and> token \<noteq> []"
    and bad: "(\<exists>err. decodeJWT_try P token = Inl err) \<or>
       (\<exists>payload. decodeJWT_try P token = Inr payload \<and>
          (\<not> truthy_opt (prop_get payload (js ''user_id'')) \<or>
           \<not> truthy_opt (prop_get payload (js ''email''))))"
  from bad have "\<exists>payload. decodeJWT P token = Inr payload \<and> session_of payload = None"
  proof
    assume "\<exists>err. decodeJWT_try P token = Inl err"
    then have "decodeJWT P token = Inr JNull" by (auto simp: decodeJWT_def)
    then show ?thesis by (simp add: session_of_def)
  next
    assume "\<exists>payload. decodeJWT_try P token = Inr payload \<and>
          (\<not> truthy_opt (prop_get payload (js ''user_id'')) \<or>
           \<not> truthy_opt (prop_get payload (js ''email'')))"
    then obtain payload where "decodeJWT_try P token = Inr payload"
      and "\<not> truthy_opt (prop_get payload (js ''user_id'')) \<or>
           \<not> truthy_opt (prop_get payload (js ''email''))" by blast
    then show ?thesis by (simp add: decodeJWT_def session_of_None)
  qed
  with tok show "checkSession P storage =
           (removeItem storage auth_token, \<lparr>data = None, isPending = False, error = None\<rparr>)"
    by (auto simp: checkSession_def)
next
  assume "getItem storage auth_token = None \<or> getItem storage auth_token = Some []"
  then show "checkSession P storage = (storage, \<lparr>data = None, isPending = False, error = None\<rparr>)"
    by (auto simp: checkSession_def)
next
  assume a: "0x2E \<notin> set h \<and> 0x2E \<notin> set h' \<and> 0x2E \<notin> set p"
  have "decodeJWT P (h @ 0x2E # p @ 0x2E # s) = decodeJWT P (h' @ 0x2E # p @ 0x2E # s')"
    using a decodeJWT_second_segment by blast
  then show "snd (checkSession P [auth_token \<mapsto> h @ 0x2E # p @ 0x2E # s]) =
      snd (checkSession P [auth_token \<mapsto> h' @ 0x2E # p @ 0x2E # s'])"
    by (simp add: checkSession_def getItem_def split: sum.splits option.splits)
qed

lemmas sample_eval =
  decodeJWT_def decodeJWT_try_def sample_platform_def sample_token_def anonymous_token_def
  js_def index_js_def replace_js_def percent_encode_def sample_payload_def anonymous_payload_def
  slice_last2_def toString16.simps hex_digit_def

lemma sample_token_decodes:
  "decodeJWT_try sample_platform sample_token =
     Inr (JObj [(js ''user_id'', JStr (js ''u1'')), (js ''email'', JStr (js ''a@x.com''))])"
  by (simp add: sample_eval)

lemma anonymous_token_decodes:
  "decodeJWT_try sample_platform anonymous_token =
     Inr (JObj [(js ''user_id'', JStr []), (js ''email'', JStr (js ''a@x.com''))])"
  by (simp add: sample_eval)

theorem checkSession_on_load_witness:
  "getItem [auth_token \<mapsto> sample_token] auth_token = Some sample_token \<and>
   sample_token \<noteq> [] \<and>
   decodeJWT_try sample_platform sample_token =
     Inr (JObj [(js ''user_id'', JStr (js ''u1'')), (js ''email'', JStr (js ''a@x.com''))]) \<and>
   checkSession sample_platform [auth_token \<mapsto> sample_token] =
     ([auth_token \<mapsto> sample_token],
      \<lparr>data = Some sample_session, isPending = False, error = None\<rparr>) \<and>
   decodeJWT_try sample_platform (js ''not-a-token'') = Inl TypeError \<and>
   checkSession sample_platform [auth_token \<mapsto> js ''not-a-token''] =
     (removeItem [auth_token \<mapsto> js ''not-a-token''] auth_token,
      \<lparr>data = None, isPending = False, error = None\<rparr>) \<and>
   getItem (removeItem [auth_token \<mapsto> js ''not-a-token''] auth_token) auth_token = None \<and>
   checkSession sample_platform Map.empty =
     (Map.empty, \<lparr>data = None, isPending = False, error = None\<rparr>)"
proof -
  have c: "decodeJWT_try sample_platform (js ''not-a-token'') = Inl TypeError"
    by (simp add: js_def decodeJWT_try_def index_js_def)
  have n: "js ''not-a-token'' \<noteq> []" "sample_token \<noteq> []"
    by (simp_all add: js_def sample_token_def)
  have s: "checkSession sample_platform [auth_token \<mapsto> sample_token] =
     ([auth_token \<mapsto> sample_token],
      \<lparr>data = Some sample_session, isPending = False, error = None\<rparr>)"
    using checkSession_on_load [of "[auth_token \<mapsto> sample_token]" sample_token sample_platform]
      sample_token_decodes n
    by (simp add: getItem_def sample_session_def) (simp add: js_def)
  have r: "checkSession sample_platform [auth_token \<mapsto> js ''not-a-token''] =
     (removeItem [auth_token \<mapsto> js ''not-a-token''] auth_token,
      \<lparr>data = None, isPending = False, error = None\<rparr>)"
    using checkSession_on_load [of "[auth_token \<mapsto> js ''not-a-token'']" "js ''not-a-token''"
        sample_platform] c n
    by (simp add: getItem_def)
  have e: "checkSession sample_platform Map.empty =
     (Map.empty, \<lparr>data = None, isPending = False, error = None\<rparr>)"
    using checkSession_on_load [of Map.empty _ sample_platform]
    by (simp add: getItem_def)
  show ?thesis
    using s r e c n sample_token_decodes by (simp add: getItem_def removeItem_def)
qed


text \<open>
  The claim as stated fails on the stored empty string, which does not decode and
  stays in the storage, and on a payload whose user id is the empty string, which
  gives no session.
\<close>

theorem checkSession_on_load_counterexample:
  "getItem [auth_token \<mapsto> []] auth_token = Some [] \<and>
   decodeJWT sample_platform [] = Inr JNull \<and>
   getItem (fst (checkSession sample_platform [auth_token \<mapsto> []])) auth_token = Some [] \<and>
   decodeJWT_try sample_platform anonymous_token =
     Inr (JObj [(js ''user_id'', JStr []), (js ''email'', JStr (js ''a@x.com''))]) \<and>
   checkSession sample_platform [auth_token \<mapsto> anonymous_token] =
     (removeItem [auth_token \<mapsto> anonymous_token] auth_token,
      \<lparr>data = None, isPending = False, error = None\<rparr>)"
proof -
  have "decodeJWT sample_platform [] = Inr JNull"
    by (simp add: decodeJWT_def decodeJWT_try_def index_js_def)
  moreover have "checkSession sample_platform [auth_token \<mapsto> []] =
      ([auth_token \<mapsto> []], \<lparr>data = None, isPending = False, error = None\<rparr>)"
    by (simp add: checkSession_def getItem_def)
  moreover have "anonymous_token \<noteq> []"
    by (simp add: anonymous_token_def js_def)
  ultimately show ?thesis
    using anonymous_token_decodes
    by (simp add: checkSession_def getItem_def decodeJWT_def session_of_def truthy_opt_def)
qed

subsection \<open>Requests\<close>

lemma request_interceptor_Authorization:
  "headers (request_interceptor storage config) (js ''Authorization'') =
     (case getItem storage auth_token of
        None \<Rightarrow> headers config (js ''Authorization'')
      | Some token \<Rightarrow>
          if token = [] then headers config (js ''Authorization'')
          else Some (js ''Bearer '' @ token))"
  by (simp add: request_interceptor_def split: option.splits)

lemma instance_headers_Authorization: "instance_headers (js ''Authorization'') = None"
  by (simp add: instance_headers_def js_def)

lemma apiAxiosClient_request_Authorization:
  "headers (apiAxiosClient_request storage m u b) (js ''Authorization'') =
     (case getItem storage auth_token of
        None \<Rightarrow> None
      | Some token \<Rightarrow> if token = [] then None else Some (js ''Bearer '' @ token))"
  by (simp add: apiAxiosClient_request_def request_interceptor_Authorization
      instance_headers_Authorization split: option.splits)

text \<open>
  Claim C2, as amended. Every request of the five task methods of the API client
  (\<open>getTasks\<close>, \<open>createTask\<close>, \<open>getTask\<close>, \<open>updateTask\<close>, \<open>deleteTask\<close>) carries
  the header \<^verbatim>\<open>Authorization: Bearer <token>\<close> when the storage holds a token
  that is not the empty string, and no Authorization header when the storage
  holds no token or the empty string.
\<close>

theorem task_requests_Authorization:
  assumes "request \<in> {getTasks P storage uid flt, createTask storage uid taskData,
             getTask storage uid taskId, updateTask storage uid taskId changes,
             deleteTask storage uid taskId}"
  shows "headers request (js ''Authorization'') =
           (case getItem storage auth_token of
              None \<Rightarrow> None
            | Some token \<Rightarrow> if token = [] then None else Some (js ''Bearer '' @ token))"
proof -
  from assms obtain m u b where "request = apiAxiosClient_request storage m u b"
    unfolding getTasks_def createTask_def getTask_def updateTask_def deleteTask_def Let_def
    by blast
  then show ?thesis
    by (simp only: apiAxiosClient_request_Authorization)
qed

theorem task_requests_Authorization_witness:
  "headers (updateTask [auth_token \<mapsto> sample_token] (js ''u1'') (js ''t1'')
      \<lparr>upd_title = None, upd_description = None, upd_completed = Some True\<rparr>)
     (js ''Authorization'') = Some (js ''Bearer '' @ sample_token) \<and>
   headers (updateTask Map.empty (js ''u1'') (js ''t1'')
      \<lparr>upd_title = None, upd_description = None, upd_completed = Some True\<rparr>)
     (js ''Authorization'') = None"
proof -
  have ne: "sample_token \<noteq> []" by (simp add: sample_token_def js_def)
  show ?thesis
    using task_requests_Authorization [of
        "updateTask [auth_token \<mapsto> sample_token] (js ''u1'') (js ''t1'')
           \<lparr>upd_title = None, upd_description = None, upd_completed = Some True\<rparr>"
        sample_platform "[auth_token \<mapsto> sample_token]" "js ''u1''" None
        "\<lparr>new_title = js ''x'', new_description = None, new_completed = None\<rparr>"
        "js ''t1''" "\<lparr>upd_title = None, upd_description = None, upd_completed = Some True\<rparr>"]
      task_requests_Authorization [of
        "updateTask Map.empty (js ''u1'') (js ''t1'')
           \<lparr>upd_title = None, upd_description = None, upd_completed = Some True\<rparr>"
        sample_platform Map.empty "js ''u1''" None
        "\<lparr>new_title = js ''x'', new_description = None, new_completed = None\<rparr>"
        "js ''t1''" "\<lparr>upd_title = None, upd_description = None, upd_completed = Some True\<rparr>"]
      ne
    by (simp add: getItem_def)
qed

text \<open>
  The claim as stated fails on a stored empty string: the item is present and the
  request leaves without the header.
\<close>

theorem task_requests_Authorization_counterexample:
  "getItem [auth_token \<mapsto> []] auth_token = Some [] \<and>
   headers (getTask [auth_token \<mapsto> []] (js ''u1'') (js ''t1'')) (js ''Authorization'') = None"
  by (simp add: getTask_def apiAxiosClient_request_Authorization getItem_def)

subsection \<open>Responses\<close>

lemma checkSession_no_token:
  "checkSession P (removeItem storage auth_token) =
     (removeItem storage auth_token, \<lparr>data = None, isPending = False, error = None\<rparr>)"
  by (simp add: checkSession_def getItem_def removeItem_def)

text \<open>
  The response interceptor removes the stored token exactly when the status is
  401; what it does not do is shown further down.
\<close>

lemma receive_storage:
  "fst (snd (receive P r (storage, hooks))) =
     (if status r = 401 then removeItem storage auth_token else storage)"
  by (simp add: receive_def response_onRejected_def dispatch_plain_event)

subsection \<open>Telling the observers\<close>

text \<open>
  The event that \<open>handleLogout\<close> and the response interceptor dispatch is a plain
  \<^verbatim>\<open>Event\<close>: it has no key, the listener of a hook reacts to the key
  \<^verbatim>\<open>auth_token\<close> only, and so the hooks of the writing context keep their state.
  The event a browser sends to the other contexts has the key, and a hook there
  takes the state of a fresh load.
\<close>

lemma handleLogout_hooks: "handleLogout P (storage, hooks) = (removeItem storage auth_token, hooks)"
  by (simp add: handleLogout_def dispatch_plain_event)

lemma receive_hooks: "snd (snd (receive P r (storage, hooks))) = hooks"
  by (simp add: receive_def response_onRejected_def dispatch_plain_event)

lemma other_context_converges:
  "handleStorageChange P (StorageEvent auth_token) (storage, h) = checkSession P storage"
  by (simp add: handleStorageChange_def StorageEvent_def)

lemma sample_session_loads:
  "checkSession sample_platform [auth_token \<mapsto> sample_token] =
     ([auth_token \<mapsto> sample_token],
      \<lparr>data = Some sample_session, isPending = False, error = None\<rparr>)"
proof -
  have "sample_token \<noteq> []" by (simp add: sample_token_def js_def)
  then show ?thesis
    using sample_token_decodes
    by (simp add: checkSession_def getItem_def decodeJWT_def session_of_def truthy_opt_def
        sample_session_def) (simp add: js_def)
qed

text \<open>
  Claim C3, where the code departs from it. A context holds the sample token and a
  mounted hook that shows its session. A response with status 401 is rejected, the
  stored token is removed, as the claim says, and the hook still shows the session
  of the user \<^verbatim>\<open>u1\<close>: the dead session stays on the screen, which the claim says
  cannot happen.
\<close>

theorem unauthorized_response_keeps_session:
  "snd (checkSession sample_platform [auth_token \<mapsto> sample_token]) =
     \<lparr>data = Some sample_session, isPending = False, error = None\<rparr> \<and>
   receive sample_platform \<lparr>status = 401, response_data = JNull\<rparr>
     ([auth_token \<mapsto> sample_token],
      [\<lparr>data = Some sample_session, isPending = False, error = None\<rparr>]) =
     (Inl \<lparr>response = Some \<lparr>status = 401, response_data = JNull\<rparr>\<rparr>,
      removeItem [auth_token \<mapsto> sample_token] auth_token,
      [\<lparr>data = Some sample_session, isPending = False, error = None\<rparr>]) \<and>
   getItem (removeItem [auth_token \<mapsto> sample_token] auth_token) auth_token = None \<and>
   map data (snd (snd (receive sample_platform \<lparr>status = 401, response_data = JNull\<rparr>
     ([auth_token \<mapsto> sample_token],
      [\<lparr>data = Some sample_session, isPending = False, error = None\<rparr>])))) =
     [Some sample_session]"
  by (simp add: sample_session_loads receive_def response_onRejected_def dispatch_plain_event
      getItem_def removeItem_def)

text \<open>
  Claim C5, where the code departs from it. A context holds the sample token and a
  hook that shows its session. After a response with status 401, and likewise
  after \<open>handleLogout\<close>, the storage holds no token, a fresh load would show no
  session, and the hook of the context that wrote still shows the session of
  the user \<^verbatim>\<open>u1\<close>.
\<close>

theorem stale_session_after_clear:
  "snd (checkSession sample_platform [auth_token \<mapsto> sample_token]) =
     \<lparr>data = Some sample_session, isPending = False, error = None\<rparr> \<and>
   snd (receive sample_platform \<lparr>status = 401, response_data = JNull\<rparr>
     ([auth_token \<mapsto> sample_token],
      [\<lparr>data = Some sample_session, isPending = False, error = None\<rparr>])) =
     (removeItem [auth_token \<mapsto> sample_token] auth_token,
      [\<lparr>data = Some sample_session, isPending = False, error = None\<rparr>]) \<and>
   handleLogout sample_platform
     ([auth_token \<mapsto> sample_token], [\<lparr>data = Some sample_session, isPending = False, error = None\<rparr>]) =
     (removeItem [auth_token \<mapsto> sample_token] auth_token,
      [\<lparr>data = Some sample_session, isPending = False, error = None\<rparr>]) \<and>
   getItem (removeItem [auth_token \<mapsto> sample_token] auth_token) auth_token = None \<and>
   snd (checkSession sample_platform (removeItem [auth_token \<mapsto> sample_token] auth_token)) =
     \<lparr>data = None, isPending = False, error = None\<rparr>"
  by (simp add: handleLogout_hooks sample_session_loads receive_def response_onRejected_def
      dispatch_plain_event)
     (simp add: checkSession_def getItem_def removeItem_def)

subsection \<open>The task form\<close>

lemma validateForm_errors:
  "fst (validateForm formData) = [] \<longleftrightarrow>
     \<not> (list_all is_white_space (new_title formData) \<or> length (new_title formData) > 200 \<or>
        (case new_description formData of None \<Rightarrow> False | Some d \<Rightarrow> length d > 1000))"
proof -
  have "trim (new_title formData) \<noteq> [] \<Longrightarrow> \<not> length (new_title formData) < 1"
    by (cases "new_title formData") (simp_all add: trim_def)
  then show ?thesis
    by (auto simp: validateForm_def Let_def trim_empty_iff split: option.splits)
qed

text \<open>
  Claim C6, as amended. The form rejects a new task (nothing is submitted and an
  error is stored) exactly when the title is empty or consists of white space
  only, or is longer than 200 code units, or the description is longer than 1000
  code units; in every other case the data is submitted and no error is stored.
\<close>

theorem handleSubmit_rejects_exactly:
  "snd (handleSubmit formData) =
     (if list_all is_white_space (new_title formData) \<or> length (new_title formData) > 200 \<or>
         (case new_description formData of None \<Rightarrow> False | Some d \<Rightarrow> length d > 1000)
      then None else Some formData) \<and>
   (fst (handleSubmit formData) = [] \<longleftrightarrow> snd (handleSubmit formData) = Some formData)"
proof -
  have v: "snd (validateForm formData) \<longleftrightarrow> fst (validateForm formData) = []"
    by (simp add: validateForm_def Let_def)
  show ?thesis
    using validateForm_errors [of formData] v
    by (cases "validateForm formData") (auto simp: handleSubmit_def)
qed

theorem handleSubmit_rejects_exactly_witness:
  "handleSubmit \<lparr>new_title = js ''Buy milk'', new_description = Some [], new_completed = Some False\<rparr> =
     ([], Some \<lparr>new_title = js ''Buy milk'', new_description = Some [], new_completed = Some False\<rparr>) \<and>
   snd (handleSubmit \<lparr>new_title = [], new_description = Some [], new_completed = Some False\<rparr>) = None \<and>
   snd (handleSubmit \<lparr>new_title = replicate 201 0x61, new_description = Some [],
          new_completed = Some False\<rparr>) = None \<and>
   snd (handleSubmit \<lparr>new_title = replicate 200 0x61, new_description = Some (replicate 1001 0x61),
          new_completed = Some False\<rparr>) = None \<and>
   snd (handleSubmit \<lparr>new_title = replicate 200 0x61, new_description = Some (replicate 1000 0x61),
          new_completed = Some False\<rparr>) =
     Some \<lparr>new_title = replicate 200 0x61, new_description = Some (replicate 1000 0x61),
           new_completed = Some False\<rparr>"
proof -
  have a: "\<not> is_white_space 0x61" by (simp add: is_white_space_def)
  have b: "\<not> list_all is_white_space (js ''Buy milk'')" by (simp add: js_def is_white_space_def)
  have c: "\<not> list_all is_white_space (replicate 200 0x61)"
    using a by (simp add: list_all_iff)
  have d: "fst (handleSubmit \<lparr>new_title = js ''Buy milk'', new_description = Some [],
      new_completed = Some False\<rparr>) = []"
    using handleSubmit_rejects_exactly [of "\<lparr>new_title = js ''Buy milk'',
      new_description = Some [], new_completed = Some False\<rparr>"] b
    by (simp add: js_def)
  show ?thesis
    using handleSubmit_rejects_exactly [of "\<lparr>new_title = js ''Buy milk'',
        new_description = Some [], new_completed = Some False\<rparr>"]
      handleSubmit_rejects_exactly [of "\<lparr>new_title = [], new_description = Some [],
        new_completed = Some False\<rparr>"]
      handleSubmit_rejects_exactly [of "\<lparr>new_title = replicate 201 0x61,
        new_description = Some [], new_completed = Some False\<rparr>"]
      handleSubmit_rejects_exactly [of "\<lparr>new_title = replicate 200 0x61,
        new_description = Some (replicate 1001 0x61), new_completed = Some False\<rparr>"]
      handleSubmit_rejects_exactly [of "\<lparr>new_title = replicate 200 0x61,
        new_description = Some (replicate 1000 0x61), new_completed = Some False\<rparr>"]
      b c d
    by (simp add: prod_eq_iff js_def)
qed

text \<open>
  The claim as stated fails on the title of one space: its length is 1, the
  description is empty, and the form answers \<^verbatim>\<open>Title is required\<close>.
\<close>

theorem handleSubmit_counterexample:
  "length (js '' '') = 1 \<and>
   handleSubmit \<lparr>new_title = js '' '', new_description = Some [], new_completed = Some False\<rparr> =
     ([(js ''title'', js ''Title is required'')], None)"
  by (simp add: handleSubmit_def validateForm_def trim_def is_white_space_def js_def)

subsection \<open>The task list\<close>

lemma lower_empty_includes:
  assumes "\<forall>s. toLowerCase P s = [] \<longleftrightarrow> s = []"
  shows "includes_js (toLowerCase P []) (toLowerCase P q) \<longleftrightarrow> q = []"
proof -
  have "toLowerCase P [] = []" using assms by blast
  moreover have "toLowerCase P q = [] \<longleftrightarrow> q = []" using assms by blast
  ultimately show ?thesis by simp
qed

lemma source_predicate:
  assumes "\<forall>s. toLowerCase P s = [] \<longleftrightarrow> s = []"
  shows "(if flt_completed flt \<noteq> None \<and> Some (completed t) \<noteq> flt_completed flt then False
         else if searchQuery \<noteq> [] then
           (let query = toLowerCase P searchQuery in
              includes_js (toLowerCase P (title t)) query \<or>
              (case description t of
                 None \<Rightarrow> False
               | Some d \<Rightarrow> d \<noteq> [] \<and> includes_js (toLowerCase P d) query))
         else True) \<longleftrightarrow>
        (\<forall>c. flt_completed flt = Some c \<longrightarrow> completed t = c) \<and>
        (searchQuery \<noteq> [] \<longrightarrow>
           ci_contains P (title t) searchQuery \<or>
           (\<exists>d. description t = Some d \<and> ci_contains P d searchQuery))"
proof (cases "description t")
  case None
  then show ?thesis
    by (cases "flt_completed flt") (auto simp: ci_contains_def)
next
  case (Some d)
  show ?thesis
  proof (cases "d = []")
    case True
    with Some lower_empty_includes [OF assms, of searchQuery] show ?thesis
      by (cases "flt_completed flt") (auto simp: ci_contains_def)
  next
    case False
    with Some show ?thesis
      by (cases "flt_completed flt") (auto simp: ci_contains_def)
  qed
qed

lemma spec_predicate:
  "(case flt_completed flt of None \<Rightarrow> True | Some c \<Rightarrow> completed t = c) \<and>
        (case (if searchQuery = [] then None else Some searchQuery) of
           None \<Rightarrow> True
         | Some q \<Rightarrow>
             ci_contains P (title t) q \<or>
             (case description t of None \<Rightarrow> False | Some d \<Rightarrow> ci_contains P d q)) \<longleftrightarrow>
        (\<forall>c. flt_completed flt = Some c \<longrightarrow> completed t = c) \<and>
        (searchQuery \<noteq> [] \<longrightarrow>
           ci_contains P (title t) searchQuery \<or>
           (\<exists>d. description t = Some d \<and> ci_contains P d searchQuery))"
  by (cases "flt_completed flt"; cases "description t"; cases "searchQuery = []") simp_all


lemma filteredTasks_filter:
  "filteredTasks P flt searchQuery (filter Q store) =
     filter (\<lambda>t. Q t \<and>
       (if flt_completed flt \<noteq> None \<and> Some (completed t) \<noteq> flt_completed flt then False
         else if searchQuery \<noteq> [] then
           (let query = toLowerCase P searchQuery in
              includes_js (toLowerCase P (title t)) query \<or>
              (case description t of
                 None \<Rightarrow> False
               | Some d \<Rightarrow> d \<noteq> [] \<and> includes_js (toLowerCase P d) query))
         else True)) store"
  unfolding filteredTasks_def filter_filter
  by (rule filter_cong) (simp_all add: conj_commute)

lemma list_tasks_unfiltered:
  "list_tasks P ownerId \<lparr>flt_completed = None, flt_search = None\<rparr> store =
     filter (\<lambda>t. user_id t = ownerId) store"
  by (simp add: list_tasks_def)

text \<open>
  Claim C7. For every owner, store, completion filter and search query: the list
  of the owner as the repository returns it, narrowed by \<open>filteredTasks\<close>, consists
  of exactly the tasks of the store, in their order, whose owner is the given one,
  whose completion flag is the one of the filter when the filter has one, and
  whose title or description contains the query when the query is not empty,
  both sides lower-cased. It is the list the repository returns for the same
  filter. Lower-casing is taken to map the empty string, and no other, to the
  empty string.
\<close>

theorem task_list_exact:
  assumes "\<forall>s. toLowerCase P s = [] \<longleftrightarrow> s = []"
  shows "filteredTasks P flt searchQuery
           (list_tasks P ownerId \<lparr>flt_completed = None, flt_search = None\<rparr> store) =
         filter (\<lambda>t. user_id t = ownerId \<and>
                     (\<forall>c. flt_completed flt = Some c \<longrightarrow> completed t = c) \<and>
                     (searchQuery \<noteq> [] \<longrightarrow>
                        ci_contains P (title t) searchQuery \<or>
                        (\<exists>d. description t = Some d \<and> ci_contains P d searchQuery))) store \<and>
         filteredTasks P flt searchQuery
           (list_tasks P ownerId \<lparr>flt_completed = None, flt_search = None\<rparr> store) =
         list_tasks P ownerId
           \<lparr>flt_completed = flt_completed flt,
            flt_search = (if searchQuery = [] then None else Some searchQuery)\<rparr> store"
proof -
  have first: "filteredTasks P flt searchQuery
           (list_tasks P ownerId \<lparr>flt_completed = None, flt_search = None\<rparr> store) =
         filter (\<lambda>t. user_id t = ownerId \<and>
                     (\<forall>c. flt_completed flt = Some c \<longrightarrow> completed t = c) \<and>
                     (searchQuery \<noteq> [] \<longrightarrow>
                        ci_contains P (title t) searchQuery \<or>
                        (\<exists>d. description t = Some d \<and> ci_contains P d searchQuery))) store"
    unfolding list_tasks_unfiltered filteredTasks_filter source_predicate [OF assms] ..
  have second: "list_tasks P ownerId
           \<lparr>flt_completed = flt_completed flt,
            flt_search = (if searchQuery = [] then None else Some searchQuery)\<rparr> store =
         filter (\<lambda>t. user_id t = ownerId \<and>
                     (\<forall>c. flt_completed flt = Some c \<longrightarrow> completed t = c) \<and>
                     (searchQuery \<noteq> [] \<longrightarrow>
                        ci_contains P (title t) searchQuery \<or>
                        (\<exists>d. description t = Some d \<and> ci_contains P d searchQuery))) store"
    unfolding list_tasks_def TaskFilter.simps spec_predicate ..
  show ?thesis
    unfolding first second by simp
qed

lemma sample_lower: "\<forall>s. toLowerCase sample_platform s = [] \<longleftrightarrow> s = []"
  by (simp add: sample_platform_def)

lemma sample_search:
  "filteredTasks sample_platform \<lparr>flt_completed = None, flt_search = None\<rparr> (js ''milk'')
     (list_tasks sample_platform (js ''u1'') \<lparr>flt_completed = None, flt_search = None\<rparr> sample_store) =
   [task_a, task_c]"
  by code_simp

lemma sample_pending:
  "filteredTasks sample_platform \<lparr>flt_completed = Some False, flt_search = None\<rparr> []
     (list_tasks sample_platform (js ''u1'') \<lparr>flt_completed = None, flt_search = None\<rparr> sample_store) =
   [task_a, task_d]"
  by code_simp

theorem task_list_exact_witness:
  "filteredTasks sample_platform \<lparr>flt_completed = None, flt_search = None\<rparr> (js ''milk'')
     (list_tasks sample_platform (js ''u1'') \<lparr>flt_completed = None, flt_search = None\<rparr> sample_store) =
   [task_a, task_c] \<and>
   list_tasks sample_platform (js ''u1'')
     \<lparr>flt_completed = None, flt_search = Some (js ''milk'')\<rparr> sample_store = [task_a, task_c] \<and>
   filteredTasks sample_platform \<lparr>flt_completed = Some False, flt_search = None\<rparr> []
     (list_tasks sample_platform (js ''u1'') \<lparr>flt_completed = None, flt_search = None\<rparr> sample_store) =
   [task_a, task_d]"
proof -
  have ne: "js ''milk'' \<noteq> []" by (simp add: js_def)
  have "filteredTasks sample_platform \<lparr>flt_completed = None, flt_search = None\<rparr> (js ''milk'')
          (list_tasks sample_platform (js ''u1'') \<lparr>flt_completed = None, flt_search = None\<rparr>
             sample_store) =
        list_tasks sample_platform (js ''u1'')
          \<lparr>flt_completed = None, flt_search = Some (js ''milk'')\<rparr> sample_store"
    using task_list_exact [OF sample_lower, of "\<lparr>flt_completed = None, flt_search = None\<rparr>"
        "js ''milk''" "js ''u1''" sample_store, THEN conjunct2] ne
    by simp
  then have "list_tasks sample_platform (js ''u1'')
          \<lparr>flt_completed = None, flt_search = Some (js ''milk'')\<rparr> sample_store =
        [task_a, task_c]"
    using sample_search by simp
  then show ?thesis
    using sample_search sample_pending by simp
qed

subsection \<open>Tokens of the server\<close>

text \<open>
  Claim C8. For every user id, login handle and time to live above zero, and every
  transport form whose parser reads back what was rendered: verifying a token at
  the time it was issued succeeds and returns the credential with the same user
  id and login handle.
\<close>

theorem verify_after_issue:
  assumes "0 < ttl" and "\<forall>c s. parse W (render W c s) = Some (c, s)"
  shows "verify W secret now (issue W secret now uid handle ttl) =
           Inr \<lparr>userId = uid, loginHandle = handle, issuedAt = now, expiresAt = now + ttl\<rparr>"
  using assms by (simp add: verify_def issue_def Let_def)

theorem verify_after_issue_witness:
  "(0::int) < 86400 \<and>
   verify sample_wire (js ''secret'') 1234567890
     (issue sample_wire (js ''secret'') 1234567890 (js ''u1'') (js ''a@x.com'') 86400) =
     Inr \<lparr>userId = js ''u1'', loginHandle = js ''a@x.com'',
          issuedAt = 1234567890, expiresAt = 1234654290\<rparr>"
  using verify_after_issue [of 86400 sample_wire "js ''secret''" 1234567890 "js ''u1''" "js ''a@x.com''"]
  by (simp add: sample_wire_def)

lemma verify_expired:
  "ttl \<le> 0 \<Longrightarrow> \<forall>c s. parse W (render W c s) = Some (c, s) \<Longrightarrow>
   verify W secret now (issue W secret now uid handle ttl) = Inl Expired"
  by (simp add: verify_def issue_def Let_def)

subsection \<open>Tasks of another owner\<close>

lemma find_owned_other:
  assumes "distinct (map task_id store)" "t \<in> set store" "user_id t \<noteq> caller"
  shows "find_owned caller (task_id t) store = None"
proof -
  have "\<And>x. x \<in> set store \<Longrightarrow> task_id x = task_id t \<Longrightarrow> x = t"
    using assms(1,2) by (meson distinct_map inj_onD)
  with assms(3) show ?thesis
    by (auto simp: find_owned_def find_None_iff)
qed

lemma find_owned_removeAll:
  "user_id t \<noteq> caller \<Longrightarrow> find_owned caller k (removeAll t store) = find_owned caller k store"
  by (induction store) (auto simp: find_owned_def)

lemma sample_store_distinct: "distinct (map task_id sample_store)"
  by code_simp

lemma sample_owner_gets: "get_task (js ''u1'') (js ''t1'') sample_store = Inr task_a"
  by code_simp

text \<open>
  Claim C1. In a store whose task ids are distinct, for every task and every
  caller who is not its owner: \<open>get_task\<close>, \<open>update_task\<close> and \<open>delete_task\<close> called
  with the caller's identity and the id of the task return NotFound, which maps
  to 404 (and is not Forbidden, 403); \<open>list_tasks\<close> does not include the task;
  and each of the four returns what it returns on the store without the task.
\<close>

theorem other_owner_not_found:
  assumes "distinct (map task_id store)" "t \<in> set store" "user_id t \<noteq> caller"
  shows "get_task caller (task_id t) store = Inl NotFound \<and>
         update_task caller (task_id t) f now store = Inl NotFound \<and>
         delete_task caller (task_id t) store = Inl NotFound \<and>
         t \<notin> set (list_tasks P caller flt store) \<and>
         http_status NotFound = 404 \<and>
         get_task caller (task_id t) (removeAll t store) = get_task caller (task_id t) store \<and>
         update_task caller (task_id t) f now (removeAll t store) =
           update_task caller (task_id t) f now store \<and>
         delete_task caller (task_id t) (removeAll t store) =
           delete_task caller (task_id t) store \<and>
         list_tasks P caller flt (removeAll t store) = list_tasks P caller flt store"
proof -
  have none: "find_owned caller (task_id t) store = None"
    using assms by (rule find_owned_other)
  have none': "find_owned caller (task_id t) (removeAll t store) = None"
    using assms(3) none by (simp add: find_owned_removeAll)
  have l: "list_tasks P caller flt (removeAll t store) = list_tasks P caller flt store"
    using assms(3) by (induction store) (auto simp: list_tasks_def)
  show ?thesis
    using none none' l assms(3)
    by (simp add: get_task_def update_task_def delete_task_def list_tasks_def)
qed

theorem other_owner_not_found_witness:
  "distinct (map task_id sample_store) \<and> task_a \<in> set sample_store \<and>
   user_id task_a \<noteq> js ''u2'' \<and>
   get_task (js ''u1'') (task_id task_a) sample_store = Inr task_a \<and>
   get_task (js ''u2'') (task_id task_a) sample_store = Inl NotFound \<and>
   update_task (js ''u2'') (task_id task_a)
     \<lparr>upd_title = None, upd_description = None, upd_completed = Some True\<rparr>
     (js ''2026-02-01T00:00:00Z'') sample_store = Inl NotFound \<and>
   delete_task (js ''u2'') (task_id task_a) sample_store = Inl NotFound \<and>
   list_tasks sample_platform (js ''u2'') \<lparr>flt_completed = None, flt_search = None\<rparr> sample_store =
     [task_b]"
proof -
  have d: "distinct (map task_id sample_store)" by (rule sample_store_distinct)
  have m: "task_a \<in> set sample_store" by (simp add: sample_store_def)
  have o: "user_id task_a \<noteq> js ''u2''" by (simp add: task_a_def js_def)
  have l: "list_tasks sample_platform (js ''u2'') \<lparr>flt_completed = None, flt_search = None\<rparr>
      sample_store = [task_b]" by code_simp
  have g: "get_task (js ''u1'') (task_id task_a) sample_store = Inr task_a" by code_simp
  show ?thesis
    using other_owner_not_found [OF d m o, of
        "\<lparr>upd_title = None, upd_description = None, upd_completed = Some True\<rparr>"
        "js ''2026-02-01T00:00:00Z''" sample_platform
        "\<lparr>flt_completed = None, flt_search = None\<rparr>"] d m o l g
    by simp
qed

subsection \<open>Dashboard counters\<close>

text \<open>
  Claim C10. For every list of tasks rendered on the dashboard, the Completed and the
  Pending counter partition the list: their sum is the Total counter, \<open>length tasks\<close>.
\<close>

theorem dashboard_counts_partition:
  "completedTasks tasks + pendingTasks tasks = length tasks"
  unfolding completedTasks_def pendingTasks_def
  by (induction tasks) simp_all

end
